theory Spec2Isabelle
  imports
    Complex_Main
    "HOL-Library.Char_ord"
begin

section \<open>The relational store (src/database.py)\<close>

text \<open>
  Each table is the list of its rows. Only the columns that the routers read in a
  condition or a join are kept in the rows; the bilingual duplicates, the descriptions,
  \<open>refs\<close>, \<open>source_url\<close> and the timestamps are carried through by the source without being
  inspected.
\<close>

record collection_row =
  c_id :: string
  c_name_en :: string

record chapter_row =
  ch_id :: string
  ch_collection_id :: string
  ch_title_en :: string

record hadith_row =
  h_id :: string
  h_collection_id :: string
  h_chapter_id :: string
  h_hadith_number :: int
  h_arabic_text :: string
  h_english_text :: string
  h_narrator :: string
  h_grade :: string
  h_tags :: "string list"

record favorite_row =
  f_id :: int
  f_user_id :: int
  f_hadith_id :: string
  f_notes :: "string option"

text \<open>
  \<open>favorites_seq\<close> is the next value of the autoincrement primary key of \<open>favorites\<close>.
\<close>

record db =
  collections :: "collection_row list"
  chapters :: "chapter_row list"
  hadiths :: "hadith_row list"
  favorites :: "favorite_row list"
  favorites_seq :: int

section \<open>Library functions and the store's answers\<close>

text \<open>
  The routers call functions of the Python standard library (\<open>datetime\<close>, \<open>random\<close>) whose
  code is not part of the repository, and they read what the store answers to a select
  statement. Both are parameters of the model: \<open>'d\<close> is the type of calendar dates, \<open>'g\<close>
  the type of states of the module-level generator of \<open>random\<close> (one per process, shared by
  all requests), and \<open>'s\<close> the type of select statements.
  \<^item> \<open>strptime s\<close> is \<open>datetime.strptime(s, "%Y-%m-%d").date()\<close>, \<open>None\<close> for \<open>ValueError\<close>;
  \<^item> \<open>today\<close> is \<open>date.today()\<close>;
  \<^item> \<open>seed a\<close> is the state \<open>random.seed(a)\<close> leaves in the module-level generator;
  \<^item> \<open>randint g a b\<close> is the value of \<open>random.randint(a, b)\<close> drawn in state \<open>g\<close>, with
    the state it leaves;
  \<^item> \<open>run_count d st\<close> and \<open>run_rows d st\<close> are the number of rows and the rows that the
    store answers to a statement \<open>st\<close> that it accepts. Nothing is assumed about them: in
    particular the order of rows that agree on the \<open>ORDER BY\<close> columns is the store's.
\<close>

record ('d, 'g, 's, 'r) lib =
  strptime :: "string \<Rightarrow> 'd option"
  today :: 'd
  toordinal :: "'d \<Rightarrow> int"
  isoformat :: "'d \<Rightarrow> string"
  seed :: "int \<Rightarrow> 'g"
  randint :: "'g \<Rightarrow> int \<Rightarrow> int \<Rightarrow> int \<times> 'g"
  run_count :: "db \<Rightarrow> 's \<Rightarrow> int"
  run_rows :: "db \<Rightarrow> 's \<Rightarrow> 'r list"

section \<open>Requests, responses and failures (src/models.py)\<close>

datatype HadithGrade = SAHIH | HASAN | DAIF | MAWDU | UNKNOWN

fun grade_value :: "HadithGrade \<Rightarrow> string" where
  "grade_value SAHIH = ''Sahih''"
| "grade_value HASAN = ''Hasan''"
| "grade_value DAIF = ''Da'' @ [CHR 0x27] @ ''if''"
| "grade_value MAWDU = ''Mawdu'' @ [CHR 0x27]"
| "grade_value UNKNOWN = ''Unknown''"

record HadithSearchParams =
  sp_q :: "string option"
  sp_collection_id :: "string option"
  sp_chapter_id :: "string option"
  sp_grade :: "HadithGrade option"
  sp_narrator :: "string option"
  sp_tags :: "string list option"
  sp_page :: int
  sp_page_size :: int

text \<open>A row validated as \<open>HadithWithDetails\<close>.\<close>

record HadithWithDetails =
  hadith :: hadith_row
  collection_name_en :: string
  chapter_title_en :: string
  is_favorite :: bool

record PaginationMeta =
  meta_page :: int
  meta_page_size :: int
  meta_total_count :: int
  meta_total_pages :: int
  meta_has_next :: bool
  meta_has_prev :: bool

record HadithsResponse =
  hs_data :: "HadithWithDetails list"
  hs_meta :: PaginationMeta

record DailyHadithResponse =
  dh_message :: string
  dh_data :: HadithWithDetails
  dh_date :: string

record HadithResponse =
  hr_message :: string
  hr_data :: HadithWithDetails

text \<open>
  What a request can end with instead of a response body:
  \<^item> \<open>HTTPException status detail\<close>, raised by a handler;
  \<^item> \<open>RequestValidationError\<close>: a \<open>Query(..., ge=, le=)\<close> bound of the signature is violated
    (status 422, before the handler runs);
  \<^item> \<open>ValidationError\<close>: a response model is constructed inside the handler without a
    required field (uncaught, status 500);
  \<^item> \<open>ResponseValidationError\<close>: the value the handler returns does not satisfy the
    \<open>response_model\<close> of its route (status 500);
  \<^item> \<open>IntegrityError\<close>: the store refuses a write that violates a constraint;
  \<^item> \<open>DatabaseError\<close>: the store refuses a select statement. No handler catches it, so
    the request ends with status 500.
\<close>

datatype failure =
    HTTPException int string
  | RequestValidationError
  | ValidationError
  | ResponseValidationError
  | IntegrityError
  | DatabaseError

fun status_code :: "failure \<Rightarrow> int" where
  "status_code (HTTPException s _) = s"
| "status_code RequestValidationError = 422"
| "status_code ValidationError = 500"
| "status_code ResponseValidationError = 500"
| "status_code IntegrityError = 500"
| "status_code DatabaseError = 500"

section \<open>Select statements and what the store accepts\<close>

text \<open>
  The select list of a statement: its plain columns, the aggregate functions and the
  other SQL functions it calls, and the columns of its \<open>GROUP BY\<close> clause.
\<close>

record select_list =
  sl_columns :: "string list"
  sl_aggregates :: "string list"
  sl_functions :: "string list"
  sl_group_by :: "string list"

text \<open>
  The functions that the statements of the routers call through \<open>sqlalchemy.func\<close> and
  that the store of the default \<open>DATABASE_URL\<close> (PostgreSQL, src/config.py) defines.
  \<open>func.literal\<close> renders a call of an SQL function \<open>literal\<close>, which it does not define.
\<close>

definition store_functions :: "string list" where
  "store_functions = [''bool_or'', ''coalesce'', ''count'', ''json_extract_path_text'', ''now'']"

text \<open>
  The store refuses a statement whose select list puts an aggregate beside a column that
  is not in \<open>GROUP BY\<close>, or that calls a function it does not define.
\<close>

definition select_refused :: "select_list \<Rightarrow> bool" where
  "select_refused sl \<longleftrightarrow>
     (sl_aggregates sl \<noteq> [] \<and> \<not> set (sl_columns sl) \<subseteq> set (sl_group_by sl))
     \<or> \<not> set (sl_aggregates sl @ sl_functions sl) \<subseteq> set store_functions"

definition store_run :: "select_list \<Rightarrow> 'a \<Rightarrow> failure + 'a" where
  "store_run sl answer = (if select_refused sl then Inl DatabaseError else Inr answer)"

text \<open>Conditions of a \<open>WHERE\<close> clause, on qualified column names.\<close>

datatype where_clause =
    Equals string string
  | Ilike string string
  | AnyOf "where_clause list"
  | JsonPathNotNull string string
  | IsNull string

text \<open>
  The \<open>ON\<close> clause of the outer join with \<open>favorites\<close>: the two equalities for a user id, or
  the Python constant \<open>False\<close> when there is no user. The statement is refused for its
  select list whichever it is.
\<close>

datatype on_clause = OnHadithAndUser int | OnFalse

record statement =
  st_select :: select_list
  st_on_favorites :: on_clause
  st_where :: "where_clause list"
  st_order_by :: "string list"
  st_limit :: "int option"
  st_offset :: "int option"

section \<open>Queries (src/routers/hadiths.py, \<open>build_hadith_query\<close>)\<close>

text \<open>Python truthiness of an optional integer (\<open>if user_id\<close>).\<close>

fun truthy_int :: "int option \<Rightarrow> bool" where
  "truthy_int None = False"
| "truthy_int (Some n) = (n \<noteq> 0)"

text \<open>
  The select list of \<open>build_hadith_query\<close>: nineteen columns of \<open>hadiths\<close>, \<open>collections\<close> and
  \<open>chapters\<close>, then \<open>coalesce(bool_or(favorites.id IS NOT NULL), False)\<close>; the statement has
  no \<open>GROUP BY\<close>.
\<close>

definition hadith_select_list :: select_list where
  "hadith_select_list =
     \<lparr>sl_columns =
        [''hadiths.id'', ''hadiths.hadith_number'', ''hadiths.arabic_text'',
         ''hadiths.english_text'', ''hadiths.narrator'', ''hadiths.grade'',
         ''hadiths.grade_details'', ''hadiths.refs'', ''hadiths.tags'', ''hadiths.source_url'',
         ''hadiths.created_at'', ''hadiths.updated_at'', ''hadiths.collection_id'',
         ''hadiths.chapter_id'', ''collections.name_en'', ''collections.name_ar'',
         ''chapters.title_en'', ''chapters.title_ar'', ''chapters.chapter_number''],
      sl_aggregates = [''bool_or''],
      sl_functions = [''coalesce''],
      sl_group_by = []\<rparr>"

text \<open>\<open>hasattr(hadiths_table.c, key)\<close>: the columns of \<open>hadiths\<close> (src/database.py).\<close>

definition hadith_columns :: "string list" where
  "hadith_columns =
     [''id'', ''collection_id'', ''chapter_id'', ''hadith_number'', ''arabic_text'',
      ''english_text'', ''narrator'', ''grade'', ''grade_details'', ''refs'', ''tags'',
      ''source_url'', ''created_at'', ''updated_at'']"

fun base_filter_conditions :: "(string \<times> string) list \<Rightarrow> where_clause list" where
  "base_filter_conditions [] = []"
| "base_filter_conditions ((key, v) # rest) =
     (if key \<in> set hadith_columns then [Equals (''hadiths.'' @ key) v] else [])
     @ base_filter_conditions rest"

definition when_set :: "string option \<Rightarrow> (string \<Rightarrow> where_clause list) \<Rightarrow> where_clause list" where
  "when_set x f = (case x of None \<Rightarrow> [] | Some s \<Rightarrow> if s \<noteq> [] then f s else [])"

definition search_conditions :: "HadithSearchParams \<Rightarrow> where_clause list" where
  "search_conditions p =
     when_set (sp_collection_id p) (\<lambda>s. [Equals ''hadiths.collection_id'' s])
     @ when_set (sp_chapter_id p) (\<lambda>s. [Equals ''hadiths.chapter_id'' s])
     @ (case sp_grade p of
          None \<Rightarrow> []
        | Some gr \<Rightarrow> [Equals ''hadiths.grade'' (grade_value gr)])
     @ when_set (sp_narrator p) (\<lambda>s. [Ilike ''hadiths.narrator'' (''%'' @ s @ ''%'')])
     @ when_set (sp_q p) (\<lambda>s. [AnyOf
          [Ilike ''hadiths.english_text'' (''%'' @ s @ ''%''),
           Ilike ''hadiths.arabic_text'' (''%'' @ s @ ''%''),
           Ilike ''hadiths.narrator'' (''%'' @ s @ ''%''),
           Ilike ''collections.name_en'' (''%'' @ s @ ''%''),
           Ilike ''chapters.title_en'' (''%'' @ s @ ''%'')]])
     @ (case sp_tags p of
          None \<Rightarrow> []
        | Some ts \<Rightarrow> map (JsonPathNotNull ''hadiths.tags'') ts)"

text \<open>
  \<open>build_hadith_query\<close> returns the statement it has assembled; it sends nothing to the
  store.
\<close>

definition build_hadith_query ::
  "HadithSearchParams option \<Rightarrow> int option \<Rightarrow> (string \<times> string) list \<Rightarrow> statement" where
  "build_hadith_query search_params user_id base_filters =
     (let conditions =
            base_filter_conditions base_filters
            @ (case search_params of None \<Rightarrow> [] | Some p \<Rightarrow> search_conditions p)
      in \<lparr>st_select = hadith_select_list,
          st_on_favorites =
            (case user_id of
               None \<Rightarrow> OnFalse
             | Some u \<Rightarrow> if u \<noteq> 0 then OnHadithAndUser u else OnFalse),
          st_where = conditions,
          st_order_by = [], st_limit = None, st_offset = None\<rparr>)"

text \<open>
  \<open>database.fetch_val(select(func.count()).select_from(query.alias()))\<close>,
  \<open>database.fetch_all(query)\<close> and \<open>database.fetch_one(query)\<close>: the store checks the
  statement, the subquery of the count included, before it answers.
\<close>

definition fetch_val_count :: "('d, 'g, statement, 'r) lib \<Rightarrow> db \<Rightarrow> statement \<Rightarrow> failure + int" where
  "fetch_val_count L d st = store_run (st_select st) (run_count L d st)"

definition fetch_all :: "('d, 'g, statement, 'r) lib \<Rightarrow> db \<Rightarrow> statement \<Rightarrow> failure + 'r list" where
  "fetch_all L d st = store_run (st_select st) (run_rows L d st)"

fun fetch_one :: "'a list \<Rightarrow> 'a option" where
  "fetch_one [] = None"
| "fetch_one (r # _) = Some r"

text \<open>\<open>query.order_by(hadiths_table.c.hadith_number).limit(n).offset(k)\<close>.\<close>

definition ordered_page :: "int \<Rightarrow> int \<Rightarrow> statement \<Rightarrow> statement" where
  "ordered_page row_limit row_offset st =
     st\<lparr>st_order_by := [''hadiths.hadith_number''],
        st_limit := Some row_limit, st_offset := Some row_offset\<rparr>"

section \<open>Daily and random pick (src/routers/hadiths.py)\<close>

text \<open>
  The handlers read and write the module-level generator of \<open>random\<close>; its state is passed
  in and returned. A request is run from its first statement to its last, or to the
  exception that ends it, without another request in between.
\<close>

text \<open>
  The block "Parse date or use today": an absent or empty \<open>date_param\<close> is falsy and selects
  today's date; \<open>None\<close> stands for the \<open>ValueError\<close> of \<open>strptime\<close>.
\<close>

definition target_date_of :: "('d, 'g, 's, 'r) lib \<Rightarrow> string option \<Rightarrow> 'd option" where
  "target_date_of L date_param =
     (case date_param of
        None \<Rightarrow> Some (today L)
      | Some s \<Rightarrow> if s \<noteq> [] then strptime L s else Some (today L))"

definition get_daily_hadith ::
  "('d, 'g, statement, HadithWithDetails) lib \<Rightarrow> db \<Rightarrow> string option \<Rightarrow> int option \<Rightarrow> 'g
     \<Rightarrow> (failure + DailyHadithResponse) \<times> 'g" where
  "get_daily_hadith L d date_param current_user g =
     (case target_date_of L date_param of
        None \<Rightarrow> (Inl (HTTPException 400 ''Invalid date format. Use YYYY-MM-DD''), g)
      | Some target_date \<Rightarrow>
          (let g1 = seed L (toordinal L target_date);
               base_query = build_hadith_query None current_user [(''grade'', ''Sahih'')]
           in case fetch_val_count L d base_query of
                Inl e \<Rightarrow> (Inl e, g1)
              | Inr total_count \<Rightarrow>
                  if total_count = 0
                  then (Inl (HTTPException 404 ''No hadiths available for daily selection''), g1)
                  else
                    (let (random_offset, g2) = randint L g1 0 (total_count - 1)
                     in case fetch_all L d (ordered_page 1 random_offset base_query) of
                          Inl e \<Rightarrow> (Inl e, g2)
                        | Inr rows \<Rightarrow>
                            (case fetch_one rows of
                               None \<Rightarrow> (Inl (HTTPException 404 ''Daily hadith not found''), g2)
                             | Some h \<Rightarrow>
                                 (Inr \<lparr>dh_message = ''Daily hadith retrieved successfully'',
                                       dh_data = h,
                                       dh_date = isoformat L target_date\<rparr>, g2)))))"

definition get_random_hadith ::
  "('d, 'g, statement, HadithWithDetails) lib \<Rightarrow> db \<Rightarrow> string option \<Rightarrow> HadithGrade option
     \<Rightarrow> bool \<Rightarrow> int option \<Rightarrow> 'g \<Rightarrow> (failure + HadithResponse) \<times> 'g" where
  "get_random_hadith L d collection_id grade exclude_favorites current_user g =
     (let base_filters =
            (case collection_id of
               None \<Rightarrow> []
             | Some s \<Rightarrow> if s \<noteq> [] then [(''collection_id'', s)] else [])
            @ (case grade of None \<Rightarrow> [] | Some gr \<Rightarrow> [(''grade'', grade_value gr)]);
          base_query0 = build_hadith_query None current_user base_filters;
          base_query =
            (if exclude_favorites \<and> truthy_int current_user
             then base_query0\<lparr>st_where := st_where base_query0 @ [IsNull ''favorites.id'']\<rparr>
             else base_query0)
      in case fetch_val_count L d base_query of
           Inl e \<Rightarrow> (Inl e, g)
         | Inr total_count \<Rightarrow>
             if total_count = 0
             then (Inl (HTTPException 404 ''No hadiths found matching criteria''), g)
             else
               (let (random_offset, g1) = randint L g 0 (total_count - 1)
                in case fetch_all L d (ordered_page 1 random_offset base_query) of
                     Inl e \<Rightarrow> (Inl e, g1)
                   | Inr rows \<Rightarrow>
                       (case fetch_one rows of
                          None \<Rightarrow> (Inl (HTTPException 404 ''Random hadith not found''), g1)
                        | Some h \<Rightarrow>
                            (Inr \<lparr>hr_message = ''Random hadith retrieved successfully'',
                                  hr_data = h\<rparr>, g1))))"

section \<open>List endpoints (src/routers/hadiths.py)\<close>

text \<open>
  The three list handlers repeat the same lines after building their query: count, offset,
  ordered page, metadata. \<open>pagination_meta\<close> is the block "Calculate pagination metadata"
  (\<open>//\<close> is floor division) and \<open>paginate\<close> the whole of it.
\<close>

definition pagination_meta :: "int \<Rightarrow> int \<Rightarrow> int \<Rightarrow> PaginationMeta" where
  "pagination_meta page page_size total_count =
     (let total_pages = (total_count + page_size - 1) div page_size;
          has_next = (page < total_pages);
          has_prev = (page > 1)
      in \<lparr>meta_page = page, meta_page_size = page_size,
          meta_total_count = total_count, meta_total_pages = total_pages,
          meta_has_next = has_next, meta_has_prev = has_prev\<rparr>)"

definition paginate ::
  "('d, 'g, statement, HadithWithDetails) lib \<Rightarrow> db \<Rightarrow> int \<Rightarrow> int \<Rightarrow> statement
     \<Rightarrow> failure + HadithsResponse" where
  "paginate L d page page_size base_query =
     (case fetch_val_count L d base_query of
        Inl e \<Rightarrow> Inl e
      | Inr total_count \<Rightarrow>
          (let row_offset = (page - 1) * page_size
           in case fetch_all L d (ordered_page page_size row_offset base_query) of
                Inl e \<Rightarrow> Inl e
              | Inr rows \<Rightarrow>
                  Inr \<lparr>hs_data = rows,
                       hs_meta = pagination_meta page page_size total_count\<rparr>))"

text \<open>\<open>page: int = Query(1, ge=1)\<close> and \<open>page_size: int = Query(20, ge=1, le=100)\<close>.\<close>

definition query_bounds_ok :: "int \<Rightarrow> int \<Rightarrow> bool" where
  "query_bounds_ok page page_size \<longleftrightarrow> 1 \<le> page \<and> 1 \<le> page_size \<and> page_size \<le> 100"

definition get_hadiths ::
  "('d, 'g, statement, HadithWithDetails) lib \<Rightarrow> db \<Rightarrow> string option \<Rightarrow> string option
     \<Rightarrow> string option \<Rightarrow> HadithGrade option \<Rightarrow> string option \<Rightarrow> int \<Rightarrow> int \<Rightarrow> int option
     \<Rightarrow> failure + HadithsResponse" where
  "get_hadiths L d q collection_id chapter_id grade narrator page page_size current_user =
     (if \<not> query_bounds_ok page page_size then Inl RequestValidationError
      else
        (let search_params =
               \<lparr>sp_q = q, sp_collection_id = collection_id, sp_chapter_id = chapter_id,
                sp_grade = grade, sp_narrator = narrator, sp_tags = None,
                sp_page = page, sp_page_size = page_size\<rparr>;
             base_query = build_hadith_query (Some search_params) current_user []
         in paginate L d page page_size base_query))"

definition get_hadiths_by_collection ::
  "('d, 'g, statement, HadithWithDetails) lib \<Rightarrow> db \<Rightarrow> string \<Rightarrow> int \<Rightarrow> int
     \<Rightarrow> HadithGrade option \<Rightarrow> int option \<Rightarrow> failure + HadithsResponse" where
  "get_hadiths_by_collection L d collection_id page page_size grade current_user =
     (if \<not> query_bounds_ok page page_size then Inl RequestValidationError
      else if fetch_one (filter (\<lambda>c. c_id c = collection_id) (collections d)) = None
      then Inl (HTTPException 404 ''Collection not found'')
      else
        (let search_params =
               \<lparr>sp_q = None, sp_collection_id = Some collection_id, sp_chapter_id = None,
                sp_grade = grade, sp_narrator = None, sp_tags = None,
                sp_page = page, sp_page_size = page_size\<rparr>;
             base_query = build_hadith_query (Some search_params) current_user []
         in paginate L d page page_size base_query))"

definition get_hadiths_by_chapter ::
  "('d, 'g, statement, HadithWithDetails) lib \<Rightarrow> db \<Rightarrow> string \<Rightarrow> int \<Rightarrow> int \<Rightarrow> int option
     \<Rightarrow> failure + HadithsResponse" where
  "get_hadiths_by_chapter L d chapter_id page page_size current_user =
     (if \<not> query_bounds_ok page page_size then Inl RequestValidationError
      else if fetch_one (filter (\<lambda>c. ch_id c = chapter_id) (chapters d)) = None
      then Inl (HTTPException 404 ''Chapter not found'')
      else
        (let search_params =
               \<lparr>sp_q = None, sp_collection_id = None, sp_chapter_id = Some chapter_id,
                sp_grade = None, sp_narrator = None, sp_tags = None,
                sp_page = page, sp_page_size = page_size\<rparr>;
             base_query = build_hadith_query (Some search_params) current_user []
         in paginate L d page page_size base_query))"

section \<open>Favorites (src/routers/favorites.py)\<close>

record FavoriteWithHadith =
  fw_favorite :: favorite_row
  fw_hadith :: HadithWithDetails

text \<open>
  What a favorites handler returns: a \<open>FavoriteResponse(message=, data=)\<close> object, or the
  plain dictionary \<open>{"success": s, "message": m}\<close>.
\<close>

datatype favorites_body =
    FavoriteResponse "string option" FavoriteWithHadith
  | PlainDict bool string

text \<open>
  \<open>FavoriteResponse.data\<close> is a required field of type \<open>FavoriteWithHadith\<close>: constructing
  the model with \<open>data=None\<close> raises, and a route declared with
  \<open>response_model=FavoriteResponse\<close> rejects a returned dictionary that has no \<open>data\<close>.
\<close>

definition make_FavoriteResponse ::
  "string option \<Rightarrow> FavoriteWithHadith option \<Rightarrow> failure + favorites_body" where
  "make_FavoriteResponse message data =
     (case data of None \<Rightarrow> Inl ValidationError | Some fw \<Rightarrow> Inr (FavoriteResponse message fw))"

fun response_model_FavoriteResponse :: "favorites_body \<Rightarrow> failure + favorites_body" where
  "response_model_FavoriteResponse (FavoriteResponse message fw) = Inr (FavoriteResponse message fw)"
| "response_model_FavoriteResponse (PlainDict s m) = Inl ResponseValidationError"

definition with_response_model ::
  "(failure + favorites_body) \<times> db \<Rightarrow> (failure + favorites_body) \<times> db" where
  "with_response_model res =
     (case fst res of
        Inl e \<Rightarrow> res
      | Inr body \<Rightarrow> (response_model_FavoriteResponse body, snd res))"

text \<open>
  The select of \<open>get_favorite_with_hadith\<close>. Its select list has twenty-three columns of
  \<open>favorites\<close>, \<open>hadiths\<close>, \<open>collections\<close> and \<open>chapters\<close>, then \<open>func.literal(True)\<close> labelled
  \<open>is_favorite\<close>. \<open>favorite_rows\<close> are the rows of its \<open>FROM\<close> and \<open>WHERE\<close> clauses: \<open>favorites\<close>
  joined with \<open>hadiths\<close>, \<open>collections\<close> and \<open>chapters\<close>, restricted to the favorite id and the
  user id.
\<close>

definition favorite_select_list :: select_list where
  "favorite_select_list =
     \<lparr>sl_columns =
        [''favorites.id'', ''favorites.user_id'', ''favorites.hadith_id'', ''favorites.notes'',
         ''favorites.added_at'', ''hadiths.hadith_number'', ''hadiths.arabic_text'',
         ''hadiths.english_text'', ''hadiths.narrator'', ''hadiths.grade'',
         ''hadiths.grade_details'', ''hadiths.refs'', ''hadiths.tags'', ''hadiths.source_url'',
         ''hadiths.created_at'', ''hadiths.updated_at'', ''hadiths.collection_id'',
         ''hadiths.chapter_id'', ''collections.name_en'', ''collections.name_ar'',
         ''chapters.title_en'', ''chapters.title_ar'', ''chapters.chapter_number''],
      sl_aggregates = [],
      sl_functions = [''literal''],
      sl_group_by = []\<rparr>"

definition favorite_rows :: "db \<Rightarrow> int \<Rightarrow> int \<Rightarrow> FavoriteWithHadith list" where
  "favorite_rows d favorite_id user_id =
     [\<lparr>fw_favorite = f,
       fw_hadith = \<lparr>hadith = h, collection_name_en = c_name_en c,
                    chapter_title_en = ch_title_en ch, is_favorite = True\<rparr>\<rparr>.
        f \<leftarrow> favorites d,
        h \<leftarrow> hadiths d, f_hadith_id f = h_id h,
        c \<leftarrow> collections d, h_collection_id h = c_id c,
        ch \<leftarrow> chapters d, h_chapter_id h = ch_id ch,
        f_id f = favorite_id \<and> f_user_id f = user_id]"

definition get_favorite_with_hadith ::
  "db \<Rightarrow> int \<Rightarrow> int \<Rightarrow> failure + FavoriteWithHadith option" where
  "get_favorite_with_hadith d favorite_id user_id =
     store_run favorite_select_list (fetch_one (favorite_rows d favorite_id user_id))"

text \<open>
  \<open>insert(favorites_table).values(...)\<close>: the store assigns the next key, refuses a row that
  violates the primary key or \<open>UniqueConstraint("user_id", "hadith_id")\<close>, and returns the
  key of the new row.
\<close>

definition insert_favorite ::
  "db \<Rightarrow> int \<Rightarrow> string \<Rightarrow> string option \<Rightarrow> failure + (int \<times> db)" where
  "insert_favorite d user_id hadith_id notes =
     (let new_row = \<lparr>f_id = favorites_seq d, f_user_id = user_id,
                      f_hadith_id = hadith_id, f_notes = notes\<rparr>
      in if (\<exists>f \<in> set (favorites d). f_id f = f_id new_row)
            \<or> (\<exists>f \<in> set (favorites d). f_user_id f = user_id \<and> f_hadith_id f = hadith_id)
         then Inl IntegrityError
         else Inr (f_id new_row,
                   d\<lparr>favorites := favorites d @ [new_row],
                     favorites_seq := favorites_seq d + 1\<rparr>))"

text \<open>
  In \<open>add_favorite\<close> the \<open>try\<close> block catches \<open>IntegrityError\<close> only; the row is written (the
  store commits each statement) before \<open>get_favorite_with_hadith\<close> is called.
\<close>

definition add_favorite ::
  "db \<Rightarrow> string \<Rightarrow> string option \<Rightarrow> int \<Rightarrow> (failure + favorites_body) \<times> db" where
  "add_favorite d hadith_id notes current_user =
     (if fetch_one (filter (\<lambda>h. h_id h = hadith_id) (hadiths d)) = None
      then (Inl (HTTPException 404 ''Hadith not found''), d)
      else if fetch_one (filter (\<lambda>f. f_user_id f = current_user \<and> f_hadith_id f = hadith_id)
                           (favorites d)) \<noteq> None
      then (Inl (HTTPException 400 ''Hadith already in favorites''), d)
      else
        (case insert_favorite d current_user hadith_id notes of
           Inl e \<Rightarrow> (Inl (HTTPException 400 ''Hadith already in favorites''), d)
         | Inr (favorite_id, d') \<Rightarrow>
             (case get_favorite_with_hadith d' favorite_id current_user of
                Inl e \<Rightarrow> (Inl e, d')
              | Inr favorite \<Rightarrow>
                  (make_FavoriteResponse (Some ''Hadith added to favorites successfully'')
                     favorite, d'))))"

definition get_favorite :: "db \<Rightarrow> int \<Rightarrow> int \<Rightarrow> (failure + favorites_body) \<times> db" where
  "get_favorite d favorite_id current_user =
     (case get_favorite_with_hadith d favorite_id current_user of
        Inl e \<Rightarrow> (Inl e, d)
      | Inr None \<Rightarrow> (Inl (HTTPException 404 ''Favorite not found''), d)
      | Inr (Some favorite) \<Rightarrow> (make_FavoriteResponse None (Some favorite), d))"

definition update_favorite ::
  "db \<Rightarrow> int \<Rightarrow> string option \<Rightarrow> int \<Rightarrow> (failure + favorites_body) \<times> db" where
  "update_favorite d favorite_id notes current_user =
     (if fetch_one (filter (\<lambda>f. f_id f = favorite_id \<and> f_user_id f = current_user)
                      (favorites d)) = None
      then (Inl (HTTPException 404 ''Favorite not found''), d)
      else
        (let d' = d\<lparr>favorites :=
                       map (\<lambda>f. if f_id f = favorite_id then f\<lparr>f_notes := notes\<rparr> else f)
                         (favorites d)\<rparr>
         in case get_favorite_with_hadith d' favorite_id current_user of
              Inl e \<Rightarrow> (Inl e, d')
            | Inr favorite \<Rightarrow>
                (make_FavoriteResponse (Some ''Favorite updated successfully'') favorite, d')))"

definition remove_favorite :: "db \<Rightarrow> int \<Rightarrow> int \<Rightarrow> (failure + favorites_body) \<times> db" where
  "remove_favorite d favorite_id current_user =
     (if fetch_one (filter (\<lambda>f. f_id f = favorite_id \<and> f_user_id f = current_user)
                      (favorites d)) = None
      then (Inl (HTTPException 404 ''Favorite not found''), d)
      else (Inr (PlainDict True ''Favorite removed successfully''),
            d\<lparr>favorites := filter (\<lambda>f. f_id f \<noteq> favorite_id) (favorites d)\<rparr>))"

definition remove_favorite_by_hadith ::
  "db \<Rightarrow> string \<Rightarrow> int \<Rightarrow> (failure + favorites_body) \<times> db" where
  "remove_favorite_by_hadith d hadith_id current_user =
     (if fetch_one (filter (\<lambda>f. f_user_id f = current_user \<and> f_hadith_id f = hadith_id)
                      (favorites d)) = None
      then (Inl (HTTPException 404 ''Hadith not in favorites''), d)
      else (Inr (PlainDict True ''Favorite removed successfully''),
            d\<lparr>favorites :=
                filter (\<lambda>f. \<not> (f_user_id f = current_user \<and> f_hadith_id f = hadith_id))
                  (favorites d)\<rparr>))"

definition toggle_favorite :: "db \<Rightarrow> string \<Rightarrow> int \<Rightarrow> (failure + favorites_body) \<times> db" where
  "toggle_favorite d hadith_id current_user =
     (if fetch_one (filter (\<lambda>h. h_id h = hadith_id) (hadiths d)) = None
      then (Inl (HTTPException 404 ''Hadith not found''), d)
      else
        (case fetch_one (filter (\<lambda>f. f_user_id f = current_user \<and> f_hadith_id f = hadith_id)
                           (favorites d)) of
           Some existing \<Rightarrow>
             (Inr (PlainDict True ''Hadith removed from favorites''),
              d\<lparr>favorites := filter (\<lambda>f. f_id f \<noteq> f_id existing) (favorites d)\<rparr>)
         | None \<Rightarrow>
             (case insert_favorite d current_user hadith_id None of
                Inl e \<Rightarrow> (Inl e, d)
              | Inr (favorite_id, d') \<Rightarrow>
                  (case get_favorite_with_hadith d' favorite_id current_user of
                     Inl e \<Rightarrow> (Inl e, d')
                   | Inr favorite \<Rightarrow>
                       (make_FavoriteResponse (Some ''Hadith added to favorites successfully'')
                          favorite, d')))))"

text \<open>
  The routes as decorated. \<open>POST /favorites/\<close>, \<open>GET\<close> and \<open>PUT /favorites/{favorite_id}\<close> and
  \<open>POST /favorites/hadith/{hadith_id}\<close> declare \<open>response_model=FavoriteResponse\<close>; the two
  \<open>DELETE\<close> routes declare none.
\<close>

definition add_favorite_route ::
  "db \<Rightarrow> string \<Rightarrow> string option \<Rightarrow> int \<Rightarrow> (failure + favorites_body) \<times> db" where
  "add_favorite_route d hadith_id notes current_user =
     with_response_model (add_favorite d hadith_id notes current_user)"

definition get_favorite_route :: "db \<Rightarrow> int \<Rightarrow> int \<Rightarrow> (failure + favorites_body) \<times> db" where
  "get_favorite_route d favorite_id current_user =
     with_response_model (get_favorite d favorite_id current_user)"

definition update_favorite_route ::
  "db \<Rightarrow> int \<Rightarrow> string option \<Rightarrow> int \<Rightarrow> (failure + favorites_body) \<times> db" where
  "update_favorite_route d favorite_id notes current_user =
     with_response_model (update_favorite d favorite_id notes current_user)"

definition toggle_favorite_route ::
  "db \<Rightarrow> string \<Rightarrow> int \<Rightarrow> (failure + favorites_body) \<times> db" where
  "toggle_favorite_route d hadith_id current_user =
     with_response_model (toggle_favorite d hadith_id current_user)"

text \<open>
  The states of the store that requests to the favorites routes can produce, starting from
  an empty \<open>favorites\<close> table.
\<close>

inductive reachable :: "db \<Rightarrow> bool" where
  init: "favorites d = [] \<Longrightarrow> reachable d"
| add: "reachable d \<Longrightarrow> reachable (snd (add_favorite_route d hadith_id n u))"
| update: "reachable d \<Longrightarrow> reachable (snd (update_favorite_route d favorite_id n u))"
| remove: "reachable d \<Longrightarrow> reachable (snd (remove_favorite d favorite_id u))"
| remove_by_hadith: "reachable d \<Longrightarrow> reachable (snd (remove_favorite_by_hadith d hadith_id u))"
| toggle: "reachable d \<Longrightarrow> reachable (snd (toggle_favorite_route d hadith_id u))"

section \<open>Properties of states\<close>

text \<open>The favorite pair \<open>(u, h)\<close> is Present.\<close>

definition present :: "db \<Rightarrow> int \<Rightarrow> string \<Rightarrow> bool" where
  "present d u h \<longleftrightarrow> (\<exists>f \<in> set (favorites d). f_user_id f = u \<and> f_hadith_id f = h)"

definition pair_unique :: "db \<Rightarrow> bool" where
  "pair_unique d \<longleftrightarrow> distinct (map (\<lambda>f. (f_user_id f, f_hadith_id f)) (favorites d))"

definition favorites_ok :: "db \<Rightarrow> bool" where
  "favorites_ok d \<longleftrightarrow>
     distinct (map f_id (favorites d)) \<and> pair_unique d
     \<and> (\<forall>f \<in> set (favorites d). f_id f < favorites_seq d)"

text \<open>The shape \<open>YYYY-MM-DD\<close>: four digits, two digits, two digits, separated by hyphens.\<close>

definition is_digit :: "char \<Rightarrow> bool" where
  "is_digit c \<longleftrightarrow> CHR ''0'' \<le> c \<and> c \<le> CHR ''9''"

definition ymd_shape :: "string \<Rightarrow> bool" where
  "ymd_shape s \<longleftrightarrow>
     length s = 10 \<and> s ! 4 = CHR ''-'' \<and> s ! 7 = CHR ''-''
     \<and> list_all is_digit (take 4 s @ take 2 (drop 5 s) @ drop 8 s)"

section \<open>An instance of the library parameters\<close>

text \<open>
  A calendar and a generator with which the handlers can be run on concrete requests.
  The theorems below hold for every instance; this one is used to run them.

  Dates are triples (year, month, day) of the proleptic Gregorian calendar.
  \<open>sample_strptime\<close> follows CPython's \<open>_strptime\<close> for the format \<open>%Y-%m-%d\<close> on strings of
  ASCII characters: the year is four digits; the month is \<open>1[0-2]\<close>, \<open>0[1-9]\<close> or \<open>[1-9]\<close>;
  the day is \<open>3[0-1]\<close>, \<open>[1-2][0-9]\<close>, \<open>0[1-9]\<close>, \<open>[1-9]\<close> or a space and \<open>[1-9]\<close>; nothing
  may follow the day; and the triple must be a date of the years 1 to 9999. So it accepts
  \<open>2024-1-5\<close> and refuses \<open>2024-02-30\<close> and \<open>0000-01-01\<close>.
\<close>

definition digit_value :: "char \<Rightarrow> int" where
  "digit_value c = int (of_char c) - 48"

definition nonzero_digit :: "char \<Rightarrow> bool" where
  "nonzero_digit c \<longleftrightarrow> CHR ''1'' \<le> c \<and> c \<le> CHR ''9''"

definition number :: "string \<Rightarrow> int" where
  "number s = foldl (\<lambda>a c. 10 * a + digit_value c) 0 s"

text \<open>The month and what follows the hyphen after it.\<close>

definition parse_month :: "string \<Rightarrow> (int \<times> string) option" where
  "parse_month s =
     (if 3 \<le> length s \<and> s ! 0 = CHR ''1'' \<and> CHR ''0'' \<le> s ! 1 \<and> s ! 1 \<le> CHR ''2''
         \<and> s ! 2 = CHR ''-''
      then Some (10 + digit_value (s ! 1), drop 3 s)
      else if 3 \<le> length s \<and> s ! 0 = CHR ''0'' \<and> nonzero_digit (s ! 1) \<and> s ! 2 = CHR ''-''
      then Some (digit_value (s ! 1), drop 3 s)
      else if 2 \<le> length s \<and> nonzero_digit (s ! 0) \<and> s ! 1 = CHR ''-''
      then Some (digit_value (s ! 0), drop 2 s)
      else None)"

definition parse_day :: "string \<Rightarrow> int option" where
  "parse_day s =
     (if length s = 2 \<and> s ! 0 = CHR ''3'' \<and> CHR ''0'' \<le> s ! 1 \<and> s ! 1 \<le> CHR ''1''
      then Some (30 + digit_value (s ! 1))
      else if length s = 2 \<and> CHR ''1'' \<le> s ! 0 \<and> s ! 0 \<le> CHR ''2'' \<and> is_digit (s ! 1)
      then Some (10 * digit_value (s ! 0) + digit_value (s ! 1))
      else if length s = 2 \<and> s ! 0 = CHR ''0'' \<and> nonzero_digit (s ! 1)
      then Some (digit_value (s ! 1))
      else if length s = 1 \<and> nonzero_digit (s ! 0)
      then Some (digit_value (s ! 0))
      else if length s = 2 \<and> s ! 0 = CHR '' '' \<and> nonzero_digit (s ! 1)
      then Some (digit_value (s ! 1))
      else None)"

definition is_leap :: "int \<Rightarrow> bool" where
  "is_leap y \<longleftrightarrow> y mod 4 = 0 \<and> (y mod 100 \<noteq> 0 \<or> y mod 400 = 0)"

definition days_in_month :: "int \<Rightarrow> int \<Rightarrow> int" where
  "days_in_month y m =
     (if m = 2 then (if is_leap y then 29 else 28)
      else if m = 4 \<or> m = 6 \<or> m = 9 \<or> m = 11 then 30 else 31)"

definition sample_strptime :: "string \<Rightarrow> (int \<times> int \<times> int) option" where
  "sample_strptime s =
     (if 5 \<le> length s \<and> list_all is_digit (take 4 s) \<and> s ! 4 = CHR ''-''
      then (case parse_month (drop 5 s) of
              None \<Rightarrow> None
            | Some (m, rest) \<Rightarrow>
                (case parse_day rest of
                   None \<Rightarrow> None
                 | Some dd \<Rightarrow>
                     (let y = number (take 4 s)
                      in if 1 \<le> y \<and> dd \<le> days_in_month y m then Some (y, m, dd) else None)))
      else None)"

definition sample_toordinal :: "int \<times> int \<times> int \<Rightarrow> int" where
  "sample_toordinal ymd =
     (case ymd of (y, m, dd) \<Rightarrow>
        (y - 1) * 365 + (y - 1) div 4 - (y - 1) div 100 + (y - 1) div 400
        + sum_list (map (days_in_month y) [1..m - 1]) + dd)"

definition decimal :: "nat \<Rightarrow> int \<Rightarrow> string" where
  "decimal width n =
     map (\<lambda>k. char_of (48 + (n div 10 ^ k) mod 10)) (rev [0..<width])"

definition sample_isoformat :: "int \<times> int \<times> int \<Rightarrow> string" where
  "sample_isoformat ymd =
     (case ymd of (y, m, dd) \<Rightarrow> decimal 4 y @ ''-'' @ decimal 2 m @ ''-'' @ decimal 2 dd)"

definition sample_randint :: "int \<Rightarrow> int \<Rightarrow> int \<Rightarrow> int \<times> int" where
  "sample_randint g a b = (a + g mod (b - a + 1), (g * 1103515245 + 12345) mod 2147483648)"

text \<open>
  The generator is a linear congruential one. The answers of the store to an accepted
  statement are never consulted by the statements of the routers; the instance answers
  with no rows.
\<close>

definition sample_lib :: "(int \<times> int \<times> int, int, statement, HadithWithDetails) lib" where
  "sample_lib =
     \<lparr>strptime = sample_strptime, today = (2024, 1, 15),
      toordinal = sample_toordinal, isoformat = sample_isoformat,
      seed = abs, randint = sample_randint,
      run_count = (\<lambda>d st. 0), run_rows = (\<lambda>d st. [])\<rparr>"

text \<open>
  A store with two collections whose first hadiths both carry number 1 and grade Sahih,
  and one hadith of grade Hasan; no favorites yet.
\<close>

definition riyad_1 :: hadith_row where
  "riyad_1 =
     \<lparr>h_id = ''riyad-1'', h_collection_id = ''riyad'', h_chapter_id = ''riyad-ch1'',
      h_hadith_number = 1, h_arabic_text = ''a1'', h_english_text = ''Actions are by intention'',
      h_narrator = ''Umar'', h_grade = ''Sahih'', h_tags = [''intention'']\<rparr>"

definition bukhari_1 :: hadith_row where
  "bukhari_1 =
     \<lparr>h_id = ''bukhari-1'', h_collection_id = ''bukhari'', h_chapter_id = ''bukhari-ch1'',
      h_hadith_number = 1, h_arabic_text = ''a2'', h_english_text = ''Revelation'',
      h_narrator = ''Aisha'', h_grade = ''Sahih'', h_tags = []\<rparr>"

definition riyad_2 :: hadith_row where
  "riyad_2 =
     \<lparr>h_id = ''riyad-2'', h_collection_id = ''riyad'', h_chapter_id = ''riyad-ch1'',
      h_hadith_number = 2, h_arabic_text = ''a3'', h_english_text = ''Sincerity'',
      h_narrator = ''Umar'', h_grade = ''Hasan'', h_tags = []\<rparr>"

definition sample_db :: db where
  "sample_db =
     \<lparr>collections = [\<lparr>c_id = ''riyad'', c_name_en = ''Riyad as-Salihin''\<rparr>,
                     \<lparr>c_id = ''bukhari'', c_name_en = ''Sahih al-Bukhari''\<rparr>],
      chapters = [\<lparr>ch_id = ''riyad-ch1'', ch_collection_id = ''riyad'', ch_title_en = ''Sincerity''\<rparr>,
                  \<lparr>ch_id = ''bukhari-ch1'', ch_collection_id = ''bukhari'',
                   ch_title_en = ''Revelation''\<rparr>],
      hadiths = [riyad_1, bukhari_1, riyad_2],
      favorites = [],
      favorites_seq = 1\<rparr>"

text \<open>The same store after user 1 has made \<open>riyad-1\<close> a favorite.\<close>

definition sample_db_fav :: db where
  "sample_db_fav =
     sample_db\<lparr>favorites := [\<lparr>f_id = 1, f_user_id = 1, f_hadith_id = ''riyad-1'',
                               f_notes = None\<rparr>],
               favorites_seq := 2\<rparr>"

section \<open>The store refuses the statements of the hadith routers\<close>

text \<open>
  Every statement that \<open>build_hadith_query\<close> assembles has the aggregate \<open>bool_or\<close> beside
  nineteen ungrouped columns, whatever the filter and the caller, and the clauses that the
  handlers add afterwards leave the select list as it is. The statement is therefore
  refused by the first call that sends it.
\<close>

lemma hadith_statement_refused:
  "select_refused (st_select (build_hadith_query search_params user_id base_filters))"
  by (simp add: build_hadith_query_def Let_def select_refused_def hadith_select_list_def)

lemma fetch_val_count_refused:
  "st_select st = st_select (build_hadith_query search_params user_id base_filters) \<Longrightarrow>
     fetch_val_count L d st = Inl DatabaseError"
  by (simp add: fetch_val_count_def store_run_def hadith_statement_refused)

lemma target_date_of_Some:
  "s \<noteq> [] \<Longrightarrow> target_date_of L (Some s) = strptime L s"
  by (simp add: target_date_of_def)

lemma daily_400:
  "target_date_of L date_param = None \<Longrightarrow>
     get_daily_hadith L d date_param u g =
       (Inl (HTTPException 400 ''Invalid date format. Use YYYY-MM-DD''), g)"
  by (simp add: get_daily_hadith_def)

lemma daily_refused:
  "target_date_of L date_param = Some dt \<Longrightarrow>
     get_daily_hadith L d date_param u g = (Inl DatabaseError, seed L (toordinal L dt))"
  by (simp add: get_daily_hadith_def Let_def fetch_val_count_refused [OF refl])

lemma random_refused:
  "get_random_hadith L d collection_id grade exclude_favorites u g = (Inl DatabaseError, g)"
proof -
  have "fetch_val_count L d (st\<lparr>st_where := w\<rparr>) = Inl DatabaseError"
    if "st = build_hadith_query None u bf" for st w bf
    using that by (simp add: fetch_val_count_refused [where search_params = None])
  then show ?thesis
    by (simp add: get_random_hadith_def Let_def fetch_val_count_refused [OF refl])
qed

lemma paginate_refused:
  "paginate L d page page_size (build_hadith_query search_params u base_filters) =
     Inl DatabaseError"
  by (simp add: paginate_def fetch_val_count_refused [OF refl])

lemma fetch_one_filter_None:
  "fetch_one (filter P xs) = None \<longleftrightarrow> \<not> (\<exists>x \<in> set xs. P x)"
  by (induction xs) simp_all

lemma get_hadiths_refused:
  "query_bounds_ok page page_size \<Longrightarrow>
     get_hadiths L d q collection_id chapter_id grade narrator page page_size u =
       Inl DatabaseError"
  by (simp add: get_hadiths_def Let_def paginate_refused)

lemma get_hadiths_by_collection_refused:
  "query_bounds_ok page page_size \<Longrightarrow> collection_id \<in> c_id ` set (collections d) \<Longrightarrow>
     get_hadiths_by_collection L d collection_id page page_size grade u = Inl DatabaseError"
  by (auto simp: get_hadiths_by_collection_def Let_def paginate_refused fetch_one_filter_None)

lemma sample_strptime_jan15: "sample_strptime ''2024-01-15'' = Some (2024, 1, 15)"
  by code_simp

lemma sample_strptime_invalid: "sample_strptime ''invalid-date'' = None"
  by code_simp

lemma sample_strptime_feb30: "sample_strptime ''2024-02-30'' = None"
  by code_simp

lemma sample_strptime_short: "sample_strptime ''2024-1-5'' = Some (2024, 1, 5)"
  by code_simp

lemma sample_ordinal_jan15: "sample_toordinal (2024, 1, 15) = 738900"
  by code_simp

section \<open>The daily pick\<close>

text \<open>
  C1 asks that two calls of the daily route with the same accepted date return the same
  hadith. In the source neither call returns a hadith: for every accepted date, every
  store, every caller and every state of the generator, the count query is refused and
  the request ends with a database error (status 500).
\<close>

theorem daily_pick_fails_on_both_calls:
  assumes "s \<noteq> []" and "strptime L s = Some dt"
  shows "fst (get_daily_hadith L d (Some s) u1 g1) = Inl DatabaseError
       \<and> fst (get_daily_hadith L d (Some s) u2 g2) = Inl DatabaseError
       \<and> status_code DatabaseError = 500"
proof -
  from assms have "target_date_of L (Some s) = Some dt"
    by (simp add: target_date_of_Some)
  then show ?thesis by (simp add: daily_refused)
qed

theorem daily_pick_fails_on_both_calls_witness:
  "(\<exists>h \<in> set (hadiths sample_db). h_grade h = ''Sahih'')
   \<and> fst (get_daily_hadith sample_lib sample_db (Some ''2024-01-15'') None 7) = Inl DatabaseError
   \<and> fst (get_daily_hadith sample_lib sample_db (Some ''2024-01-15'') (Some 1) 99)
       = Inl DatabaseError"
proof -
  have "strptime sample_lib ''2024-01-15'' = Some (2024, 1, 15)"
    by (simp add: sample_lib_def sample_strptime_jan15)
  moreover have "\<exists>h \<in> set (hadiths sample_db). h_grade h = ''Sahih''"
    by (simp add: sample_db_def riyad_1_def)
  ultimately show ?thesis
    using daily_pick_fails_on_both_calls
      [of "''2024-01-15''" sample_lib "(2024, 1, 15)" sample_db None 7 "Some 1" 99]
    by simp
qed

text \<open>
  C2 asks that the daily route seed the generator with the ordinal of the date, draw one
  offset and return the row at that offset. The source does the first only: the generator
  is left in exactly the state \<open>random.seed(target_date.toordinal())\<close> gives it, no offset
  is drawn, and the reply is a database error instead of a row.
\<close>

theorem daily_pick_seeds_without_draw:
  assumes "s \<noteq> []" and "strptime L s = Some dt"
  shows "get_daily_hadith L d (Some s) u g = (Inl DatabaseError, seed L (toordinal L dt))"
proof -
  from assms have "target_date_of L (Some s) = Some dt"
    by (simp add: target_date_of_Some)
  then show ?thesis by (rule daily_refused)
qed

theorem daily_pick_seeds_without_draw_witness:
  "get_daily_hadith sample_lib sample_db (Some ''2024-01-15'') None 7 = (Inl DatabaseError, 738900)"
proof -
  have date: "strptime sample_lib ''2024-01-15'' = Some (2024, 1, 15)"
    by (simp add: sample_lib_def sample_strptime_jan15)
  have "seed sample_lib (toordinal sample_lib (2024, 1, 15)) = 738900"
    by (simp add: sample_lib_def sample_ordinal_jan15)
  with daily_pick_seeds_without_draw [OF _ date, of sample_db None 7]
  show ?thesis by simp
qed

text \<open>
  C8, as stated, fails: the empty string is not of the form \<open>YYYY-MM-DD\<close>, yet the guard
  \<open>if date_param:\<close> treats it as absent. The request is not answered with status 400: the
  handler goes on with today's date, seeds the generator with its ordinal, and ends in the
  database error of the count query.
\<close>

theorem daily_empty_date_counterexample:
  "\<not> ymd_shape ''''
   \<and> map_sum status_code dh_date
        (fst (get_daily_hadith sample_lib sample_db (Some '''') None 7)) = Inl 500
   \<and> snd (get_daily_hadith sample_lib sample_db (Some '''') None 7)
       = seed sample_lib (toordinal sample_lib (today sample_lib))"
proof -
  have "target_date_of sample_lib (Some '''') = Some (today sample_lib)"
    by (simp add: target_date_of_def)
  then have "get_daily_hadith sample_lib sample_db (Some '''') None 7 =
      (Inl DatabaseError, seed sample_lib (toordinal sample_lib (today sample_lib)))"
    by (rule daily_refused)
  then show ?thesis by (simp add: ymd_shape_def)
qed

text \<open>
  C8, amended. The daily route fails with status 400 and detail
  "Invalid date format. Use YYYY-MM-DD" exactly when \<open>date_param\<close> is a non-empty string that
  \<open>strptime\<close> rejects; an absent or empty \<open>date_param\<close> is not rejected and selects today's
  date, with whose ordinal the generator is seeded.
\<close>

theorem daily_bad_request_iff:
  "(fst (get_daily_hadith L d date_param u g) =
        Inl (HTTPException 400 ''Invalid date format. Use YYYY-MM-DD'')
      \<longleftrightarrow> (\<exists>s. date_param = Some s \<and> s \<noteq> [] \<and> strptime L s = None))
   \<and> (date_param = None \<or> date_param = Some [] \<longrightarrow>
        snd (get_daily_hadith L d date_param u g) = seed L (toordinal L (today L)))"
proof (cases "target_date_of L date_param")
  case None
  then have bad: "\<exists>s. date_param = Some s \<and> s \<noteq> [] \<and> strptime L s = None"
    by (auto simp: target_date_of_def split: option.splits if_splits)
  with None show ?thesis by (auto simp: daily_400)
next
  case (Some dt)
  then have ok: "\<not> (\<exists>s. date_param = Some s \<and> s \<noteq> [] \<and> strptime L s = None)"
    by (auto simp: target_date_of_def split: option.splits if_splits)
  from Some have today: "date_param = None \<or> date_param = Some [] \<longrightarrow> dt = today L"
    by (auto simp: target_date_of_def)
  from Some ok today show ?thesis by (auto simp: daily_refused)
qed

theorem daily_bad_request_iff_witness:
  "fst (get_daily_hadith sample_lib sample_db (Some ''invalid-date'') None 7) =
      Inl (HTTPException 400 ''Invalid date format. Use YYYY-MM-DD'')
   \<and> fst (get_daily_hadith sample_lib sample_db (Some ''2024-02-30'') None 7) =
      Inl (HTTPException 400 ''Invalid date format. Use YYYY-MM-DD'')
   \<and> fst (get_daily_hadith sample_lib sample_db (Some ''2024-1-5'') None 7) \<noteq>
      Inl (HTTPException 400 ''Invalid date format. Use YYYY-MM-DD'')
   \<and> snd (get_daily_hadith sample_lib sample_db None None 7) = 738900"
proof -
  have s1: "strptime sample_lib ''invalid-date'' = None"
    and s2: "strptime sample_lib ''2024-02-30'' = None"
    and s3: "strptime sample_lib ''2024-1-5'' \<noteq> None"
    by (simp_all add: sample_lib_def sample_strptime_invalid sample_strptime_feb30
        sample_strptime_short)
  have t: "seed sample_lib (toordinal sample_lib (today sample_lib)) = 738900"
    by (simp add: sample_lib_def sample_ordinal_jan15)
  from s1 s2 s3 t
    daily_bad_request_iff [of sample_lib sample_db "Some ''invalid-date''" None 7]
    daily_bad_request_iff [of sample_lib sample_db "Some ''2024-02-30''" None 7]
    daily_bad_request_iff [of sample_lib sample_db "Some ''2024-1-5''" None 7]
    daily_bad_request_iff [of sample_lib sample_db None None 7]
  show ?thesis by simp
qed

section \<open>The random pick after a daily pick\<close>

text \<open>
  C5 asks that the random pick draw from process entropy with a generator that shares no
  state with the daily pick's. In the source both handlers use the module-level generator
  of \<open>random\<close>: after a daily request with an accepted date the generator that the random
  handler reads is in the state the date's ordinal seeds, whatever state \<open>g\<close> the process
  had before. The random handler itself never reaches its draw: its count query is
  refused, the reply is a database error and the generator stays in the date's state.
\<close>

theorem random_pick_shares_daily_generator:
  assumes "s \<noteq> []" and "strptime L s = Some dt"
  shows "snd (get_daily_hadith L d (Some s) u g) = seed L (toordinal L dt)
       \<and> get_random_hadith L d collection_id grade exclude_favorites u'
           (snd (get_daily_hadith L d (Some s) u g))
         = (Inl DatabaseError, seed L (toordinal L dt))"
proof -
  from assms have "target_date_of L (Some s) = Some dt"
    by (simp add: target_date_of_Some)
  then have "get_daily_hadith L d (Some s) u g = (Inl DatabaseError, seed L (toordinal L dt))"
    by (rule daily_refused)
  then show ?thesis by (simp add: random_refused)
qed

theorem random_pick_shares_daily_generator_witness:
  "snd (get_daily_hadith sample_lib sample_db (Some ''2024-01-15'') None 7) = 738900
   \<and> snd (get_daily_hadith sample_lib sample_db (Some ''2024-01-15'') None 8) = 738900
   \<and> get_random_hadith sample_lib sample_db None None False None
        (snd (get_daily_hadith sample_lib sample_db (Some ''2024-01-15'') None 7))
      = (Inl DatabaseError, 738900)"
proof -
  have nonempty: "''2024-01-15'' \<noteq> []" by simp
  have date: "strptime sample_lib ''2024-01-15'' = Some (2024, 1, 15)"
    by (simp add: sample_lib_def sample_strptime_jan15)
  have t: "seed sample_lib (toordinal sample_lib (2024, 1, 15)) = 738900"
    by (simp add: sample_lib_def sample_ordinal_jan15)
  note first = random_pick_shares_daily_generator [OF nonempty date,
      of sample_db None 7 None None False None]
  note second = random_pick_shares_daily_generator [OF nonempty date,
      of sample_db None 8 None None False None]
  show ?thesis using first second unfolding t by blast
qed

section \<open>Pagination\<close>

text \<open>
  The arithmetic of the block "Calculate pagination metadata" is the one the specification
  states: \<open>total_pages\<close> is the ceiling of \<open>total_count / page_size\<close>.
\<close>

lemma round_up_div:
  fixes a b :: int
  assumes "0 < b"
  shows "(a + b - 1) div b = (if a mod b = 0 then a div b else a div b + 1)"
proof (cases "a mod b = 0")
  case True
  have "a + b - 1 = b * (a div b) + (b - 1)"
    using True by (simp add: algebra_simps) (metis True add.right_neutral mult_div_mod_eq mult.commute)
  moreover have "0 \<le> b - 1" "b - 1 < b" using assms by simp_all
  ultimately have "(a + b - 1) div b = a div b" by (rule int_div_pos_eq)
  with True show ?thesis by simp
next
  case False
  with assms have r: "1 \<le> a mod b" "a mod b < b"
    using pos_mod_sign [of b a] pos_mod_bound [of b a] by linarith+
  have "a = b * (a div b) + a mod b" by simp
  then have "a + b - 1 = b * (a div b + 1) + (a mod b - 1)"
    by (simp add: algebra_simps)
  moreover have "0 \<le> a mod b - 1" "a mod b - 1 < b" using r by simp_all
  ultimately have "(a + b - 1) div b = a div b + 1" by (rule int_div_pos_eq)
  with False show ?thesis by simp
qed

lemma ceil_div:
  fixes a b :: int
  assumes "0 < b"
  shows "(a + b - 1) div b = \<lceil>of_int a / (of_int b :: real)\<rceil>"
proof -
  from assms have "- a div b = (if a mod b = 0 then - (a div b) else - (a div b) - 1)"
    by (simp add: zdiv_zminus1_eq_if)
  then have "(a + b - 1) div b = - (- a div b)"
    by (simp add: round_up_div [OF assms])
  then show ?thesis by (simp add: ceiling_divide_eq_div)
qed

lemma pagination_meta_arith:
  assumes "0 < page_size"
  shows "meta_total_count (pagination_meta page page_size total_count) = total_count"
    and "meta_total_pages (pagination_meta page page_size total_count) =
           \<lceil>of_int total_count / (of_int page_size :: real)\<rceil>"
    and "meta_has_next (pagination_meta page page_size total_count) \<longleftrightarrow>
           page < meta_total_pages (pagination_meta page page_size total_count)"
    and "meta_has_prev (pagination_meta page page_size total_count) \<longleftrightarrow> 1 < page"
  by (simp_all add: pagination_meta_def Let_def ceil_div [OF assms])

text \<open>
  C3 asks that the list endpoints return the ordered slice of the matching rows. In the
  source no list request that passes the bounds of the signature returns rows: the count
  query of \<open>get_hadiths\<close>, and of \<open>get_hadiths_by_collection\<close> on an existing collection, is
  refused, and the request ends with a database error.
\<close>

theorem list_page_not_returned:
  assumes "query_bounds_ok page page_size"
  shows "get_hadiths L d q collection_id chapter_id grade narrator page page_size u =
           Inl DatabaseError
       \<and> (cid \<in> c_id ` set (collections d) \<longrightarrow>
            get_hadiths_by_collection L d cid page page_size grade u = Inl DatabaseError)"
  using assms by (simp add: get_hadiths_refused get_hadiths_by_collection_refused)

theorem list_page_not_returned_witness:
  "get_hadiths sample_lib sample_db None None None None None 1 20 None = Inl DatabaseError
   \<and> get_hadiths_by_collection sample_lib sample_db ''riyad'' 1 20 None None = Inl DatabaseError"
proof -
  have b: "query_bounds_ok 1 20" by (simp add: query_bounds_ok_def)
  have c: "''riyad'' \<in> c_id ` set (collections sample_db)" by (simp add: sample_db_def)
  from c list_page_not_returned [OF b, of sample_lib sample_db None None None None None None
      "''riyad''"]
  show ?thesis by simp
qed

text \<open>
  C4 asks for the pagination metadata of a list endpoint, and for an empty slice with
  valid metadata on a page beyond the last. In the source \<open>get_hadiths\<close> returns no
  metadata for any page that passes the bounds of the signature, a page beyond the last
  included: the reply is a failure of status 500.
\<close>

theorem pagination_metadata_not_returned:
  assumes "query_bounds_ok page page_size"
  shows "map_sum status_code hs_meta
           (get_hadiths L d q collection_id chapter_id grade narrator page page_size u) = Inl 500"
  using assms by (simp add: get_hadiths_refused)

theorem pagination_metadata_not_returned_witness:
  "map_sum status_code hs_meta
     (get_hadiths sample_lib sample_db None None None None None 1 20 None) = Inl 500
   \<and> map_sum status_code hs_meta
     (get_hadiths sample_lib sample_db None None None None None 3 2 None) = Inl 500"
proof -
  have b: "query_bounds_ok 1 20" "query_bounds_ok 3 2" by (simp_all add: query_bounds_ok_def)
  from pagination_metadata_not_returned [OF b(1), of sample_lib sample_db None None None None None None]
    pagination_metadata_not_returned [OF b(2), of sample_lib sample_db None None None None None None]
  show ?thesis by simp
qed

section \<open>Favorites: lookups and the store constraints\<close>

text \<open>
  The select of \<open>get_favorite_with_hadith\<close> calls the function \<open>literal\<close>, which the store
  does not define: it is refused on every call.
\<close>

lemma get_favorite_with_hadith_refused [simp]:
  "get_favorite_with_hadith d favorite_id user_id = Inl DatabaseError"
  by (simp add: get_favorite_with_hadith_def store_run_def select_refused_def
      favorite_select_list_def store_functions_def)

lemma fetch_one_filter_Some:
  "fetch_one (filter P xs) = Some x \<Longrightarrow> x \<in> set xs \<and> P x"
  by (induction xs) (auto split: if_splits)

lemma present_fetch:
  "present d u h \<longleftrightarrow>
     fetch_one (filter (\<lambda>f. f_user_id f = u \<and> f_hadith_id f = h) (favorites d)) \<noteq> None"
  by (auto simp: present_def fetch_one_filter_None)

lemma hadith_exists_fetch:
  "h \<in> h_id ` set (hadiths d) \<longleftrightarrow> fetch_one (filter (\<lambda>x. h_id x = h) (hadiths d)) \<noteq> None"
  by (auto simp: fetch_one_filter_None)

lemma with_response_model_Inl [simp]:
  "with_response_model (Inl e, d) = (Inl e, d)"
  by (simp add: with_response_model_def)

lemma snd_with_response_model [simp]: "snd (with_response_model res) = snd res"
  by (cases res) (simp add: with_response_model_def split: sum.splits)

lemma pair_unique_filter:
  "pair_unique d \<Longrightarrow> pair_unique (d\<lparr>favorites := filter P (favorites d)\<rparr>)"
  by (simp add: pair_unique_def distinct_map_filter)

lemma pair_unique_notes:
  "pair_unique d \<Longrightarrow>
     pair_unique (d\<lparr>favorites := map (\<lambda>f. if Q f then f\<lparr>f_notes := n\<rparr> else f) (favorites d)\<rparr>)"
proof -
  have "(\<lambda>f. (f_user_id f, f_hadith_id f)) \<circ> (\<lambda>f. if Q f then f\<lparr>f_notes := n\<rparr> else f)
      = (\<lambda>f. (f_user_id f, f_hadith_id f))"
    by (auto simp: fun_eq_iff)
  then show "pair_unique d \<Longrightarrow> ?thesis" by (simp add: pair_unique_def)
qed

lemma insert_favorite_pair_unique:
  assumes "insert_favorite d u h n = Inr (i, d')" and "pair_unique d"
  shows "pair_unique d'"
  using assms
  by (auto simp: insert_favorite_def pair_unique_def Let_def split: if_splits)

lemma add_favorite_pair_unique:
  "pair_unique d \<Longrightarrow> pair_unique (snd (add_favorite d h n u))"
  by (auto simp: add_favorite_def dest: insert_favorite_pair_unique split: sum.splits)

lemma update_favorite_pair_unique:
  "pair_unique d \<Longrightarrow> pair_unique (snd (update_favorite d i n u))"
  by (simp add: update_favorite_def Let_def pair_unique_notes)

lemma remove_favorite_pair_unique:
  "pair_unique d \<Longrightarrow> pair_unique (snd (remove_favorite d i u))"
  by (simp add: remove_favorite_def pair_unique_filter)

lemma remove_favorite_by_hadith_pair_unique:
  "pair_unique d \<Longrightarrow> pair_unique (snd (remove_favorite_by_hadith d h u))"
  by (simp add: remove_favorite_by_hadith_def pair_unique_filter)

lemma toggle_favorite_pair_unique:
  "pair_unique d \<Longrightarrow> pair_unique (snd (toggle_favorite d h u))"
  by (auto simp: toggle_favorite_def pair_unique_filter
      dest: insert_favorite_pair_unique split: sum.splits option.splits)

lemma reachable_pair_unique: "reachable d \<Longrightarrow> pair_unique d"
proof (induction rule: reachable.induct)
  case (init d)
  then show ?case by (simp add: pair_unique_def)
next
  case (add d hadith_id n u)
  then show ?case by (simp add: add_favorite_route_def add_favorite_pair_unique)
next
  case (update d favorite_id n u)
  then show ?case by (simp add: update_favorite_route_def update_favorite_pair_unique)
next
  case (remove d favorite_id u)
  then show ?case by (simp add: remove_favorite_pair_unique)
next
  case (remove_by_hadith d hadith_id u)
  then show ?case by (simp add: remove_favorite_by_hadith_pair_unique)
next
  case (toggle d hadith_id u)
  then show ?case by (simp add: toggle_favorite_route_def toggle_favorite_pair_unique)
qed

lemma sample_add: "snd (add_favorite_route sample_db ''riyad-1'' None 1) = sample_db_fav"
  by (simp add: add_favorite_route_def add_favorite_def insert_favorite_def
      sample_db_fav_def sample_db_def riyad_1_def split: sum.splits)

lemma toggle_favorite_present:
  assumes ex: "h \<in> h_id ` set (hadiths d)" and pr: "present d u h" and un: "pair_unique d"
  shows "fst (toggle_favorite d h u) = Inr (PlainDict True ''Hadith removed from favorites'')"
    and "\<not> present (snd (toggle_favorite d h u)) u h"
proof -
  from pr obtain e where
    e: "fetch_one (filter (\<lambda>f. f_user_id f = u \<and> f_hadith_id f = h) (favorites d)) = Some e"
    by (auto simp: present_fetch)
  then have e_in: "e \<in> set (favorites d)" and e_pair: "f_user_id e = u" "f_hadith_id e = h"
    by (auto dest: fetch_one_filter_Some)
  from ex e have t: "toggle_favorite d h u =
      (Inr (PlainDict True ''Hadith removed from favorites''),
       d\<lparr>favorites := filter (\<lambda>f. f_id f \<noteq> f_id e) (favorites d)\<rparr>)"
    by (simp add: toggle_favorite_def hadith_exists_fetch)
  then show "fst (toggle_favorite d h u) = Inr (PlainDict True ''Hadith removed from favorites'')"
    by simp
  from un have inj: "inj_on (\<lambda>f. (f_user_id f, f_hadith_id f)) (set (favorites d))"
    by (simp add: pair_unique_def distinct_map)
  have "f = e" if "f \<in> set (favorites d)" "f_user_id f = u" "f_hadith_id f = h" for f
    using inj_onD [OF inj _ that(1) e_in] that(2,3) e_pair by simp
  then show "\<not> present (snd (toggle_favorite d h u)) u h"
    by (auto simp: t present_def)
qed

lemma favorites_ok_filter:
  "favorites_ok d \<Longrightarrow> favorites_ok (d\<lparr>favorites := filter P (favorites d)\<rparr>)"
  by (simp add: favorites_ok_def pair_unique_def distinct_map_filter)

lemma insert_favorite_fresh:
  assumes "favorites_ok d" and "\<not> present d u h"
  shows "insert_favorite d u h n =
           Inr (favorites_seq d,
                d\<lparr>favorites := favorites d @ [\<lparr>f_id = favorites_seq d, f_user_id = u,
                                               f_hadith_id = h, f_notes = n\<rparr>],
                  favorites_seq := favorites_seq d + 1\<rparr>)"
  using assms
  by (auto simp: insert_favorite_def favorites_ok_def present_def Let_def)

lemma insert_favorite_ok:
  assumes "favorites_ok d" and "\<not> present d u h"
  shows "favorites_ok (d\<lparr>favorites := favorites d @ [\<lparr>f_id = favorites_seq d, f_user_id = u,
                                               f_hadith_id = h, f_notes = n\<rparr>],
                  favorites_seq := favorites_seq d + 1\<rparr>)"
  using assms
  by (fastforce simp: favorites_ok_def pair_unique_def present_def)

lemma toggle_favorite_flips:
  assumes ex: "h \<in> h_id ` set (hadiths d)" and ok: "favorites_ok d"
  shows "present (snd (toggle_favorite d h u)) u h \<longleftrightarrow> \<not> present d u h"
    and "favorites_ok (snd (toggle_favorite d h u))"
    and "hadiths (snd (toggle_favorite d h u)) = hadiths d"
proof -
  show "present (snd (toggle_favorite d h u)) u h \<longleftrightarrow> \<not> present d u h"
  proof (cases "present d u h")
    case True
    with toggle_favorite_present(2) [OF ex True] ok show ?thesis
      by (simp add: favorites_ok_def)
  next
    case False
    then have "fetch_one (filter (\<lambda>f. f_user_id f = u \<and> f_hadith_id f = h) (favorites d)) = None"
      by (simp add: present_fetch)
    with ex False show ?thesis
      by (auto simp: toggle_favorite_def hadith_exists_fetch insert_favorite_fresh [OF ok False]
          present_def)
  qed
  show "favorites_ok (snd (toggle_favorite d h u))"
    using ok ex
    by (auto simp: toggle_favorite_def favorites_ok_filter insert_favorite_fresh insert_favorite_ok
        present_fetch split: option.splits)
  show "hadiths (snd (toggle_favorite d h u)) = hadiths d"
    using ok
    by (auto simp: toggle_favorite_def insert_favorite_def Let_def split: option.splits)
qed

lemma toggle_twice_restores_presence:
  assumes "h \<in> h_id ` set (hadiths d)" and "favorites_ok d"
  shows "present (snd (toggle_favorite_route (snd (toggle_favorite_route d h u)) h u)) u h
           \<longleftrightarrow> present d u h"
proof -
  let ?d1 = "snd (toggle_favorite d h u)"
  from toggle_favorite_flips [OF assms, of u]
  have 1: "present ?d1 u h \<longleftrightarrow> \<not> present d u h" and ok1: "favorites_ok ?d1"
    and ex1: "h \<in> h_id ` set (hadiths ?d1)"
    using assms(1) by simp_all
  from toggle_favorite_flips(1) [OF ex1 ok1, of u] 1
  show ?thesis by (simp add: toggle_favorite_route_def)
qed

lemma toggle_favorite_absent:
  assumes ex: "h \<in> h_id ` set (hadiths d)" and ok: "favorites_ok d"
    and ab: "\<not> present d u h"
  shows "toggle_favorite_route d h u =
           (Inl DatabaseError,
            d\<lparr>favorites := favorites d @ [\<lparr>f_id = favorites_seq d, f_user_id = u,
                                             f_hadith_id = h, f_notes = None\<rparr>],
              favorites_seq := favorites_seq d + 1\<rparr>)"
proof -
  from ab have none:
    "fetch_one (filter (\<lambda>f. f_user_id f = u \<and> f_hadith_id f = h) (favorites d)) = None"
    by (simp add: present_fetch)
  from ex have some: "fetch_one (filter (\<lambda>x. h_id x = h) (hadiths d)) \<noteq> None"
    by (simp add: hadith_exists_fetch)
  from some none show ?thesis
    by (auto simp: toggle_favorite_route_def toggle_favorite_def insert_favorite_fresh [OF ok ab]
        get_favorite_with_hadith_refused)
qed

section \<open>Favorites: the claims\<close>

text \<open>
  C6 describes the toggle route as a two-state machine that returns the created row or a
  removal acknowledgment. On the state the source does this: \<open>toggle_favorite_flips\<close> and
  \<open>toggle_twice_restores_presence\<close> above. On the reply it does not. When the pair is
  Present the handler deletes the row and returns the dictionary
  \<open>{"success": True, "message": "Hadith removed from favorites"}\<close>, but its route
  declares \<open>response_model=FavoriteResponse\<close>, whose required field \<open>data\<close> the dictionary
  lacks, so the request ends with a response validation failure (status 500) after the
  row has been deleted. When the pair is Absent the row is inserted and the reply is the
  database error of \<open>get_favorite_with_hadith\<close> (\<open>toggle_favorite_absent\<close>).
\<close>

theorem toggle_removal_rejected_by_response_model:
  assumes "h \<in> h_id ` set (hadiths d)" and "present d u h" and "pair_unique d"
  shows "fst (toggle_favorite d h u) = Inr (PlainDict True ''Hadith removed from favorites'')
       \<and> fst (toggle_favorite_route d h u) = Inl ResponseValidationError
       \<and> status_code ResponseValidationError = 500
       \<and> \<not> present (snd (toggle_favorite_route d h u)) u h"
  using toggle_favorite_present [OF assms]
  by (simp add: toggle_favorite_route_def with_response_model_def)

theorem toggle_removal_rejected_by_response_model_witness:
  "toggle_favorite_route sample_db_fav ''riyad-1'' 1 =
     (Inl ResponseValidationError, sample_db_fav\<lparr>favorites := []\<rparr>)"
proof -
  have "''riyad-1'' \<in> h_id ` set (hadiths sample_db_fav)"
    by (simp add: sample_db_fav_def sample_db_def riyad_1_def)
  moreover have "present sample_db_fav 1 ''riyad-1''"
    by (simp add: present_def sample_db_fav_def)
  moreover have "pair_unique sample_db_fav"
    by (simp add: pair_unique_def sample_db_fav_def)
  moreover have "snd (toggle_favorite sample_db_fav ''riyad-1'' 1) = sample_db_fav\<lparr>favorites := []\<rparr>"
    by (simp add: toggle_favorite_def sample_db_fav_def sample_db_def riyad_1_def)
  ultimately show ?thesis
    using toggle_removal_rejected_by_response_model [of "''riyad-1''" sample_db_fav 1]
    by (simp add: prod_eq_iff toggle_favorite_route_def)
qed

text \<open>
  C7. In every state reachable from an empty \<open>favorites\<close> table through the favorites routes
  each pair \<open>(user_id, hadith_id)\<close> occurs in at most one favorite row, and the two routes
  that create favorites, add and toggle, preserve this from any state that has it.
\<close>

theorem favorite_pairs_unique:
  "(reachable d \<longrightarrow> pair_unique d)
   \<and> (pair_unique d \<longrightarrow> pair_unique (snd (add_favorite_route d h n u)))
   \<and> (pair_unique d \<longrightarrow> pair_unique (snd (toggle_favorite_route d h u)))"
  by (simp add: reachable_pair_unique add_favorite_route_def add_favorite_pair_unique
      toggle_favorite_route_def toggle_favorite_pair_unique)

theorem favorite_pairs_unique_witness:
  "reachable sample_db_fav \<and> pair_unique sample_db_fav
   \<and> pair_unique (snd (add_favorite_route sample_db_fav ''riyad-1'' None 1))
   \<and> pair_unique (snd (toggle_favorite_route sample_db_fav ''bukhari-1'' 1))"
proof -
  have "reachable sample_db" by (rule reachable.init) (simp add: sample_db_def)
  then have "reachable (snd (add_favorite_route sample_db ''riyad-1'' None 1))"
    by (rule reachable.add)
  then have r: "reachable sample_db_fav" by (simp add: sample_add)
  with favorite_pairs_unique [of sample_db_fav "''riyad-1''" None 1]
    favorite_pairs_unique [of sample_db_fav "''bukhari-1''" None 1]
  show ?thesis by simp
qed

text \<open>
  C9. For a user \<open>u\<close> and an existing hadith \<open>h\<close>, the add route fails with status 400 and
  detail "Hadith already in favorites" when the pair is Present, and the route that removes
  by hadith fails with status 404 when the pair is Absent; both leave the store as it was.
\<close>

theorem add_remove_check_start_state:
  "(h \<in> h_id ` set (hadiths d) \<and> present d u h \<longrightarrow>
      add_favorite_route d h notes u =
        (Inl (HTTPException 400 ''Hadith already in favorites''), d))
   \<and> (\<not> present d u h \<longrightarrow>
      remove_favorite_by_hadith d h u =
        (Inl (HTTPException 404 ''Hadith not in favorites''), d))"
  by (simp add: add_favorite_route_def add_favorite_def remove_favorite_by_hadith_def
      present_fetch hadith_exists_fetch)

theorem add_remove_check_start_state_witness:
  "add_favorite_route sample_db_fav ''riyad-1'' (Some ''note'') 1 =
      (Inl (HTTPException 400 ''Hadith already in favorites''), sample_db_fav)
   \<and> remove_favorite_by_hadith sample_db_fav ''bukhari-1'' 1 =
      (Inl (HTTPException 404 ''Hadith not in favorites''), sample_db_fav)"
proof -
  have "''riyad-1'' \<in> h_id ` set (hadiths sample_db_fav)"
    by (simp add: sample_db_fav_def sample_db_def riyad_1_def)
  moreover have "present sample_db_fav 1 ''riyad-1''"
    by (simp add: present_def sample_db_fav_def)
  moreover have "\<not> present sample_db_fav 1 ''bukhari-1''"
    by (simp add: present_def sample_db_fav_def)
  ultimately show ?thesis
    using add_remove_check_start_state [of "''riyad-1''" sample_db_fav 1 "Some ''note''"]
      add_remove_check_start_state [of "''bukhari-1''" sample_db_fav 1 None]
    by simp
qed

text \<open>
  C10 asks that a favorite row of user \<open>a\<close> be answered with status 404 to any other user
  \<open>b\<close> who reads, updates or deletes it by its id. Updating and deleting are: the check
  on id and user fails before any write. Reading is not: \<open>get_favorite\<close> calls
  \<open>get_favorite_with_hadith\<close> first, whose select is refused, so the request ends with a
  database error (status 500) before the check for 404. All three replies contain nothing
  of the row and leave the store as it was.
\<close>

theorem favorite_by_id_other_user:
  assumes "distinct (map f_id (favorites d))"
    and "f \<in> set (favorites d)" and "f_user_id f = a" and "b \<noteq> a"
  shows "get_favorite_route d (f_id f) b = (Inl DatabaseError, d)
       \<and> status_code DatabaseError = 500
       \<and> update_favorite_route d (f_id f) notes b =
           (Inl (HTTPException 404 ''Favorite not found''), d)
       \<and> remove_favorite d (f_id f) b = (Inl (HTTPException 404 ''Favorite not found''), d)"
proof -
  have none: "\<not> (\<exists>x \<in> set (favorites d). f_id x = f_id f \<and> f_user_id x = b)"
  proof
    assume "\<exists>x \<in> set (favorites d). f_id x = f_id f \<and> f_user_id x = b"
    then obtain x where x: "x \<in> set (favorites d)" "f_id x = f_id f" "f_user_id x = b" by blast
    from assms(1) have "inj_on f_id (set (favorites d))" by (simp add: distinct_map)
    with x(1,2) assms(2) have "x = f" by (auto dest: inj_onD)
    with x(3) assms(3,4) show False by simp
  qed
  then have
    "fetch_one (filter (\<lambda>x. f_id x = f_id f \<and> f_user_id x = b) (favorites d)) = None"
    by (simp add: fetch_one_filter_None)
  then show ?thesis
    by (simp add: get_favorite_route_def get_favorite_def update_favorite_route_def
        update_favorite_def remove_favorite_def get_favorite_with_hadith_refused)
qed

theorem favorite_by_id_other_user_witness:
  "get_favorite_route sample_db_fav 1 2 = (Inl DatabaseError, sample_db_fav)
   \<and> update_favorite_route sample_db_fav 1 (Some ''mine now'') 2 =
      (Inl (HTTPException 404 ''Favorite not found''), sample_db_fav)
   \<and> remove_favorite sample_db_fav 1 2 =
      (Inl (HTTPException 404 ''Favorite not found''), sample_db_fav)"
proof -
  let ?f = "\<lparr>f_id = 1, f_user_id = 1, f_hadith_id = ''riyad-1'', f_notes = None\<rparr>"
  have "distinct (map f_id (favorites sample_db_fav))"
    and "?f \<in> set (favorites sample_db_fav)"
    by (simp_all add: sample_db_fav_def)
  from favorite_by_id_other_user [OF this, of 1 2 "Some ''mine now''"]
  show ?thesis by simp
qed

end
